theory Spec2Isabelle
  imports Complex_Main "HOL-Library.Sublist" "HOL-Library.Product_Lexorder"
begin

section \<open>Strings as the dashboard uses them\<close>

text \<open>
  Column headers are Python strings. They are modelled as HOL strings (byte lists); the
  keyword lists of the detectors are plain ASCII, so only the ASCII letters matter for
  matching. \<open>lower\<close> is \<^verbatim>\<open>str.lower\<close> on ASCII: the letters A..Z move to a..z, every
  other byte stays.
\<close>

definition lower_char :: "char \<Rightarrow> char" where
  "lower_char c =
     (case map_of (zip ''ABCDEFGHIJKLMNOPQRSTUVWXYZ'' ''abcdefghijklmnopqrstuvwxyz'') c of
        Some l \<Rightarrow> l
      | None \<Rightarrow> c)"

definition lower :: "string \<Rightarrow> string" where
  "lower s = map lower_char s"

text \<open>
  \<^verbatim>\<open>keyword in s\<close>: the keyword occurs in \<open>s\<close> as a contiguous run of characters. The
  scan tries every start position from the left.
\<close>

fun str_in :: "string \<Rightarrow> string \<Rightarrow> bool" where
  "str_in k [] = (k = [])"
| "str_in k (c # cs) = (prefix k (c # cs) \<or> str_in k cs)"

text \<open>\<^verbatim>\<open>any(keyword in col.lower() for keyword in keywords)\<close>\<close>

definition any_keyword_in :: "string list \<Rightarrow> string \<Rightarrow> bool" where
  "any_keyword_in keywords col = list_ex (\<lambda>keyword. str_in keyword (lower col)) keywords"

section \<open>Data frames\<close>

text \<open>
  A timestamp is the tuple of its calendar fields (year, month, day, hour, minute, second,
  microsecond), compared field by field from the left, which is how naive
  \<^verbatim>\<open>datetime\<close> values compare.
\<close>

type_synonym datetime = "int \<times> nat \<times> nat \<times> nat \<times> nat \<times> nat \<times> nat"

definition year :: "datetime \<Rightarrow> int" where
  "year d = fst d"

text \<open>
  A cell of a frame: the two missing markers of pandas (\<open>NaN\<close> for numbers, \<open>NaT\<close> for
  timestamps), a string, a number or a timestamp.
\<close>

datatype cell = NaN | NaT | Str string | Num real | Timestamp datetime

text \<open>
  A \<^verbatim>\<open>DataFrame\<close>: the ordered column labels and the rows, each row holding one cell
  per label, by position. Labels are only labels: nothing here makes them unique.
\<close>

record dataframe =
  columns :: "string list"
  rows :: "cell list list"

section \<open>Column detection\<close>

text \<open>
  \<^verbatim>\<open>detect_traffic_volume_columns\<close>: the list comprehension over \<^verbatim>\<open>data.columns\<close>.
\<close>

definition volume_keywords :: "string list" where
  "volume_keywords = [''traffic_volume'', ''volume'', ''traffic'', ''count'']"

definition detect_traffic_volume_columns :: "dataframe \<Rightarrow> string list" where
  "detect_traffic_volume_columns data =
     filter (\<lambda>col. any_keyword_in volume_keywords col) (columns data)"

text \<open>
  \<^verbatim>\<open>detect_datetime_column\<close>: the loop returns at the first label that matches, and
  \<^verbatim>\<open>None\<close> after the last one. \<open>detect_datetime_with\<close> is the same loop over any keyword
  list; the source runs it with the four keywords of \<open>datetime_keywords\<close>.
\<close>

fun detect_datetime_with :: "string list \<Rightarrow> string list \<Rightarrow> string option" where
  "detect_datetime_with keywords [] = None"
| "detect_datetime_with keywords (col # cols) =
     (if any_keyword_in keywords col then Some col else detect_datetime_with keywords cols)"

definition datetime_keywords :: "string list" where
  "datetime_keywords = [''datetime'', ''date_time'', ''timestamp'', ''date'']"

definition detect_datetime_column :: "dataframe \<Rightarrow> string option" where
  "detect_datetime_column data = detect_datetime_with datetime_keywords (columns data)"

section \<open>The pandas operations the dashboard calls\<close>

text \<open>
  A label is resolved to the position of its first occurrence; \<open>None\<close> stands for the
  \<^verbatim>\<open>KeyError\<close> of a label that is absent, and equally for \<^verbatim>\<open>label in data.columns\<close>
  being false. Where a label repeats, pandas hands out all the columns of that name as
  a frame, which the conversions of the dashboard do not take; the properties below
  that look a label up are stated for frames in which that label names one column.
\<close>

fun index_of :: "string \<Rightarrow> string list \<Rightarrow> nat option" where
  "index_of c [] = None"
| "index_of c (x # xs) = (if x = c then Some 0 else map_option Suc (index_of c xs))"

text \<open>A row that is shorter than the header reads as missing there.\<close>

definition cell_at :: "cell list \<Rightarrow> nat \<Rightarrow> cell" where
  "cell_at r i = (if i < length r then r ! i else NaN)"

text \<open>\<^verbatim>\<open>data[label]\<close> and \<^verbatim>\<open>data[label] = values\<close>, at the position of the label.\<close>

definition getitem :: "dataframe \<Rightarrow> nat \<Rightarrow> cell list" where
  "getitem data i = map (\<lambda>r. cell_at r i) (rows data)"

definition setitem :: "dataframe \<Rightarrow> nat \<Rightarrow> cell list \<Rightarrow> dataframe" where
  "setitem data i values = data\<lparr>rows := map2 (\<lambda>r v. r[i := v]) (rows data) values\<rparr>"

text \<open>\<^verbatim>\<open>data[mask]\<close>: the rows at which the boolean mask \<open>keep\<close> is true, in their order.\<close>

definition select_rows :: "dataframe \<Rightarrow> bool list \<Rightarrow> dataframe" where
  "select_rows data keep = data\<lparr>rows := map fst (filter snd (zip (rows data) keep))\<rparr>"

definition isna :: "cell \<Rightarrow> bool" where
  "isna c = (c = NaN \<or> c = NaT)"

text \<open>\<^verbatim>\<open>data.dropna(subset=[...])\<close>: a new frame without the rows missing a value there.\<close>

definition dropna :: "dataframe \<Rightarrow> nat list \<Rightarrow> dataframe" where
  "dropna data cols =
     select_rows data (map (\<lambda>r. list_all (\<lambda>i. \<not> isna (cell_at r i)) cols) (rows data))"

text \<open>\<^verbatim>\<open>data.rename(columns={old: new})\<close>: every label equal to \<open>old\<close> becomes \<open>new\<close>.\<close>

definition rename :: "dataframe \<Rightarrow> string \<Rightarrow> string \<Rightarrow> dataframe" where
  "rename data old new = data\<lparr>columns := map (\<lambda>c. if c = old then new else c) (columns data)\<rparr>"

text \<open>\<^verbatim>\<open>data.empty\<close>: one of the two axes has length zero.\<close>

definition empty :: "dataframe \<Rightarrow> bool" where
  "empty data = (rows data = [] \<or> columns data = [])"

text \<open>
  \<^verbatim>\<open>pd.to_datetime(column, errors='coerce')\<close> and \<^verbatim>\<open>pd.to_numeric(column, errors='coerce')\<close>
  convert a column value by value; a value that does not convert becomes the missing
  marker. Which values convert is pandas' business: the parsers are parameters
  (\<open>parse\<close>, \<open>coerce\<close>) of everything below.
\<close>

definition to_datetime :: "(cell \<Rightarrow> datetime option) \<Rightarrow> cell list \<Rightarrow> cell list" where
  "to_datetime parse column =
     map (\<lambda>c. case parse c of Some d \<Rightarrow> Timestamp d | None \<Rightarrow> NaT) column"

definition to_numeric :: "(cell \<Rightarrow> real option) \<Rightarrow> cell list \<Rightarrow> cell list" where
  "to_numeric coerce column =
     map (\<lambda>c. case coerce c of Some x \<Rightarrow> Num x | None \<Rightarrow> NaN) column"

text \<open>
  \<^verbatim>\<open>pd.api.types.is_datetime64_any_dtype\<close>: the column is a timestamp column, that is, it
  holds timestamps and \<open>NaT\<close> only.
\<close>

fun is_datetime64 :: "cell \<Rightarrow> bool" where
  "is_datetime64 (Timestamp d) = True"
| "is_datetime64 NaT = True"
| "is_datetime64 c = False"

definition is_datetime64_any_dtype :: "cell list \<Rightarrow> bool" where
  "is_datetime64_any_dtype column = list_all is_datetime64 column"

text \<open>
  \<^verbatim>\<open>column.between(lo, hi)\<close>, both ends included; a missing value is never between.
  \<^verbatim>\<open>column >= d\<close> and \<^verbatim>\<open>column <= d\<close> on a timestamp column; \<open>NaT\<close> compares false.
\<close>

fun between :: "real \<Rightarrow> real \<Rightarrow> cell \<Rightarrow> bool" where
  "between lo hi (Num x) = (lo \<le> x \<and> x \<le> hi)"
| "between lo hi c = False"

fun ge_datetime :: "datetime \<Rightarrow> cell \<Rightarrow> bool" where
  "ge_datetime d (Timestamp t) = (d \<le> t)"
| "ge_datetime d c = False"

fun le_datetime :: "datetime \<Rightarrow> cell \<Rightarrow> bool" where
  "le_datetime d (Timestamp t) = (t \<le> d)"
| "le_datetime d c = False"

section \<open>Preprocessing an upload\<close>

datatype error =
    ParseError
  | SchemaError string
  | InvalidDateError
  | OversizeInputError
  | KeyError string

text \<open>
  \<^verbatim>\<open>preprocess_data\<close>. Each \<^verbatim>\<open>return None\<close> of the source comes with its own message and
  is an error here: the \<^verbatim>\<open>except\<close> around \<^verbatim>\<open>read_csv\<close> (\<open>read_csv\<close> is a parameter, \<open>None\<close>
  when it raises), the warning that no datetime column exists, and the warning that the
  column could not be converted. \<^verbatim>\<open>if datetime_col:\<close> is false for \<^verbatim>\<open>None\<close> and for the
  empty string.
\<close>

definition preprocess_data ::
  "('f \<Rightarrow> dataframe option) \<Rightarrow> (cell \<Rightarrow> datetime option) \<Rightarrow> 'f \<Rightarrow> error + dataframe" where
  "preprocess_data read_csv parse uploaded_file =
     (case read_csv uploaded_file of
        None \<Rightarrow> Inl ParseError
      | Some raw \<Rightarrow>
          (let data = raw\<lparr>columns := map lower (columns raw)\<rparr> in
           case detect_datetime_column data of
             None \<Rightarrow> Inl (SchemaError ''no datetime column'')
           | Some datetime_col \<Rightarrow>
               if datetime_col = [] then Inl (SchemaError ''no datetime column'')
               else
                 (case index_of datetime_col (columns data) of
                    None \<Rightarrow> Inl (KeyError datetime_col)
                  | Some i \<Rightarrow>
                      (let data = setitem data i (to_datetime parse (getitem data i));
                           data = dropna data [i]
                       in if \<not> is_datetime64_any_dtype (getitem data i)
                          then Inl (SchemaError ''datetime conversion failed'')
                          else Inr (rename data datetime_col ''datetime'')))))"

section \<open>The selectable window\<close>

text \<open>
  \<^verbatim>\<open>generate_time_options\<close>: the comprehension runs the hours in the outer loop and the
  minutes \<^verbatim>\<open>range(0, 60, 5)\<close> in the inner one. \<open>format_02d\<close> is the format \<^verbatim>\<open>:02d\<close>:
  decimal digits, padded with zeros on the left to two places.
\<close>

definition digit_char :: "nat \<Rightarrow> char" where
  "digit_char n = ''0123456789'' ! (n mod 10)"

fun str_nat :: "nat \<Rightarrow> string" where
  "str_nat n = (if n < 10 then [digit_char n] else str_nat (n div 10) @ [digit_char n])"

definition format_02d :: "nat \<Rightarrow> string" where
  "format_02d n = (let s = str_nat n in replicate (2 - length s) CHR ''0'' @ s)"

definition range_step :: "nat \<Rightarrow> nat \<Rightarrow> nat \<Rightarrow> nat list" where
  "range_step start stop step =
     map (\<lambda>k. start + k * step) [0 ..< (stop - start + step - 1) div step]"

definition generate_time_options :: "string list" where
  "generate_time_options =
     concat (map (\<lambda>hour. map (\<lambda>minute. format_02d hour @ '':'' @ format_02d minute @ '':00'')
                              (range_step 0 60 5))
                 [0 ..< 24])"

text \<open>
  The offered domains: \<^verbatim>\<open>sorted(processed_data['datetime'].dt.year.unique())\<close>,
  \<^verbatim>\<open>list(range(1, 13))\<close> and \<^verbatim>\<open>list(range(1, 32))\<close>. The column is read at the position
  of the label \<^verbatim>\<open>'datetime'\<close>.
\<close>

definition dt_year :: "cell list \<Rightarrow> int list" where
  "dt_year column =
     List.map_filter (\<lambda>c. case c of Timestamp d \<Rightarrow> Some (year d) | _ \<Rightarrow> None) column"

definition years :: "dataframe \<Rightarrow> nat \<Rightarrow> int list" where
  "years processed_data i = sort (remdups (dt_year (getitem processed_data i)))"

definition months :: "nat list" where
  "months = [1 ..< 13]"

definition days :: "nat list" where
  "days = [1 ..< 32]"

text \<open>
  \<^verbatim>\<open>datetime.strptime(f"{year}-{month:02d}-{day:02d} {time}", "%Y-%m-%d %H:%M:%S")\<close> is
  the standard library's. It is modelled on the four values that the string is
  formatted from: the year has to print as four digits, month and day have to be in
  the ranges the format accepts, the time has to read as three two-digit fields, and
  the date has to pass the check of the \<^verbatim>\<open>datetime\<close> constructor, which compares the day
  with \<^verbatim>\<open>_days_in_month\<close>. \<open>None\<close> is the \<^verbatim>\<open>ValueError\<close>.
\<close>

definition is_leap :: "int \<Rightarrow> bool" where
  "is_leap y = (y mod 4 = 0 \<and> (y mod 100 \<noteq> 0 \<or> y mod 400 = 0))"

definition days_in_month :: "int \<Rightarrow> nat \<Rightarrow> nat" where
  "days_in_month y m =
     (if m = 2 \<and> is_leap y then 29
      else [0, 31, 28, 31, 30, 31, 30, 31, 31, 30, 31, 30, 31] ! m)"

definition digit_val :: "char \<Rightarrow> nat option" where
  "digit_val c = map_of (zip ''0123456789'' [0, 1, 2, 3, 4, 5, 6, 7, 8, 9]) c"

definition two_digits :: "char \<Rightarrow> char \<Rightarrow> nat option" where
  "two_digits a b =
     (case (digit_val a, digit_val b) of
        (Some x, Some y) \<Rightarrow> Some (10 * x + y)
      | _ \<Rightarrow> None)"

fun parse_hms :: "string \<Rightarrow> (nat \<times> nat \<times> nat) option" where
  "parse_hms [h1, h2, c1, m1, m2, c2, s1, s2] =
     (if c1 = CHR '':'' \<and> c2 = CHR '':'' then
        (case (two_digits h1 h2, two_digits m1 m2, two_digits s1 s2) of
           (Some h, Some m, Some s) \<Rightarrow> if h < 24 \<and> m < 60 \<and> s < 62 then Some (h, m, s) else None
         | _ \<Rightarrow> None)
      else None)"
| "parse_hms t = None"

definition strptime :: "int \<Rightarrow> nat \<Rightarrow> nat \<Rightarrow> string \<Rightarrow> datetime option" where
  "strptime y m d t =
     (case parse_hms t of
        None \<Rightarrow> None
      | Some (hh, mm, ss) \<Rightarrow>
          if 1000 \<le> y \<and> y \<le> 9999 \<and> 1 \<le> m \<and> m \<le> 12 \<and> 1 \<le> d \<and> d \<le> 31
             \<and> d \<le> days_in_month y m
          then Some (y, m, d, hh, mm, ss, 0)
          else None)"

text \<open>
  The \<^verbatim>\<open>try\<close> block of the dashboard builds the start and the end of the window from the
  selections of the widgets; a \<^verbatim>\<open>ValueError\<close> of either \<^verbatim>\<open>strptime\<close> call is caught and
  reported as an invalid date.
\<close>

record selection =
  start_year :: int
  start_month :: nat
  start_day :: nat
  start_time :: string
  end_year :: int
  end_month :: nat
  end_day :: nat
  end_time :: string

definition build_window :: "selection \<Rightarrow> error + datetime \<times> datetime" where
  "build_window sel =
     (case strptime (start_year sel) (start_month sel) (start_day sel) (start_time sel) of
        None \<Rightarrow> Inl InvalidDateError
      | Some start_datetime \<Rightarrow>
          (case strptime (end_year sel) (end_month sel) (end_day sel) (end_time sel) of
             None \<Rightarrow> Inl InvalidDateError
           | Some end_datetime \<Rightarrow> Inr (start_datetime, end_datetime)))"

text \<open>
  The window filter of the dashboard: the two comparisons build a boolean mask over
  the datetime column and the mask selects the rows.
\<close>

definition filtered_data :: "dataframe \<Rightarrow> nat \<Rightarrow> datetime \<Rightarrow> datetime \<Rightarrow> dataframe" where
  "filtered_data processed_data i start_datetime end_datetime =
     select_rows processed_data
       (map2 (\<and>) (map (ge_datetime start_datetime) (getitem processed_data i))
                  (map (le_datetime end_datetime) (getitem processed_data i)))"

section \<open>The map of the filtered rows\<close>

text \<open>
  \<^verbatim>\<open>plot_folium_map_with_geojson\<close> shows one of three things: the warning that the
  columns are missing, the error that no valid point is left, or the map of the rows
  that are left.
\<close>

datatype geo_status = MissingColumns | NoValidPoints | Points dataframe

text \<open>
  The two assignments \<^verbatim>\<open>filtered_data['latitude'] = ...\<close> write into the frame object the
  caller passed; \<^verbatim>\<open>dropna\<close> and the range mask build new frames, bound to the local
  name only. The function is therefore modelled with two results: the caller's frame
  as it is after the call, and what was shown.
\<close>

definition plot_folium_map_with_geojson ::
  "(cell \<Rightarrow> real option) \<Rightarrow> dataframe \<Rightarrow> dataframe \<times> geo_status" where
  "plot_folium_map_with_geojson coerce filtered =
     (case (index_of ''longitude'' (columns filtered), index_of ''latitude'' (columns filtered)) of
        (Some lon, Some lat) \<Rightarrow>
          (let caller = setitem filtered lat (to_numeric coerce (getitem filtered lat));
               caller = setitem caller lon (to_numeric coerce (getitem caller lon));
               local = dropna caller [lat, lon];
               local = select_rows local
                         (map2 (\<and>) (map (between (- 90) 90) (getitem local lat))
                                    (map (between (- 180) 180) (getitem local lon)))
           in (caller, if empty local then NoValidPoints else Points local))
      | _ \<Rightarrow> (filtered, MissingColumns))"

section \<open>The dashboard\<close>

record 'f uploaded_file =
  file_size :: nat
  file_body :: 'f

text \<open>
  What one run of \<^verbatim>\<open>historical_data\<close> ends with: nothing uploaded yet, an error message,
  nothing at all (the preprocessed frame is empty), or the dashboard. The dashboard
  holds the filtered table as \<^verbatim>\<open>st.write\<close> printed it, what the map function showed, and
  the filtered frame as the map function left it, which the charts are drawn from.
\<close>

datatype page =
    Idle
  | ErrorShown error
  | Blank
  | Dashboard dataframe geo_status dataframe

definition historical_data ::
  "('f uploaded_file \<Rightarrow> dataframe option) \<Rightarrow> (cell \<Rightarrow> datetime option) \<Rightarrow> (cell \<Rightarrow> real option)
     \<Rightarrow> 'f uploaded_file option \<Rightarrow> selection \<Rightarrow> page" where
  "historical_data read_csv parse coerce uploaded sel =
     (case uploaded of
        None \<Rightarrow> Idle
      | Some uploaded_file \<Rightarrow>
          if file_size uploaded_file > 300 * 1024 * 1024 then ErrorShown OversizeInputError
          else
            (case preprocess_data read_csv parse uploaded_file of
               Inl e \<Rightarrow> ErrorShown e
             | Inr processed_data \<Rightarrow>
                 if empty processed_data then Blank
                 else
                   (case index_of ''datetime'' (columns processed_data) of
                      None \<Rightarrow> ErrorShown (KeyError ''datetime'')
                    | Some i \<Rightarrow>
                        (case build_window sel of
                           Inl e \<Rightarrow> ErrorShown e
                         | Inr (start_datetime, end_datetime) \<Rightarrow>
                             (let written = filtered_data processed_data i start_datetime
                                              end_datetime;
                                  (charted, shown) = plot_folium_map_with_geojson coerce written
                              in Dashboard written shown charted)))))"

section \<open>The vocabulary of the properties\<close>

text \<open>
  A header contains a keyword case-insensitively: some run of consecutive characters
  of the header equals the keyword once the case of the letters is ignored.
\<close>

definition contains_ci :: "string \<Rightarrow> string \<Rightarrow> bool" where
  "contains_ci keyword header = (\<exists>ps w ss. header = ps @ w @ ss \<and> lower w = lower keyword)"

definition matches_any :: "string list \<Rightarrow> string \<Rightarrow> bool" where
  "matches_any keywords header = (\<exists>keyword \<in> set keywords. contains_ci keyword header)"

text \<open>A frame is rectangular: every row has one cell per column label.\<close>

definition rectangular :: "dataframe \<Rightarrow> bool" where
  "rectangular data = list_all (\<lambda>r. length r = length (columns data)) (rows data)"

text \<open>A label names exactly one column of the frame, the one at position \<open>i\<close>.\<close>

definition labelled_once :: "string \<Rightarrow> dataframe \<Rightarrow> nat \<Rightarrow> bool" where
  "labelled_once c data i =
     (index_of c (columns data) = Some i \<and> count_list (columns data) c = 1)"

text \<open>
  A frame is normalized, with its timestamps at position \<open>i\<close>: the one column
  labelled \<^verbatim>\<open>datetime\<close> is the one at \<open>i\<close>, and every row holds a timestamp there.
\<close>

fun is_timestamp :: "cell \<Rightarrow> bool" where
  "is_timestamp (Timestamp d) = True"
| "is_timestamp c = False"

definition normalized :: "dataframe \<Rightarrow> nat \<Rightarrow> bool" where
  "normalized data i =
     (labelled_once ''datetime'' data i
      \<and> list_all (\<lambda>r. is_timestamp (cell_at r i)) (rows data))"


text \<open>
  The frame of \<^verbatim>\<open>preprocess_data\<close> after the conversion of column \<open>i\<close> and the
  \<^verbatim>\<open>dropna\<close>, before the check of the column type and the renaming.
\<close>

definition converted :: "(cell \<Rightarrow> datetime option) \<Rightarrow> dataframe \<Rightarrow> nat \<Rightarrow> dataframe" where
  "converted parse data i = dropna (setitem data i (to_datetime parse (getitem data i))) [i]"



text \<open>
  A row gives a point of the map: both coordinates convert to numbers, and the numbers
  are a latitude and a longitude.
\<close>

definition valid_point :: "(cell \<Rightarrow> real option) \<Rightarrow> nat \<Rightarrow> nat \<Rightarrow> cell list \<Rightarrow> bool" where
  "valid_point coerce lat lon r =
     (\<exists>x y. coerce (cell_at r lat) = Some x \<and> coerce (cell_at r lon) = Some y
            \<and> - 90 \<le> x \<and> x \<le> 90 \<and> - 180 \<le> y \<and> y \<le> 180)"

text \<open>
  The least parsers, for concrete runs: only a cell that holds a timestamp converts to
  a timestamp, and only a cell that holds a number converts to a number.
\<close>

fun timestamps_only :: "cell \<Rightarrow> datetime option" where
  "timestamps_only (Timestamp d) = Some d"
| "timestamps_only c = None"

fun numbers_only :: "cell \<Rightarrow> real option" where
  "numbers_only (Num x) = Some x"
| "numbers_only c = None"

section \<open>Facts about strings and keywords\<close>

lemma str_in_sublist: "str_in k s = sublist k s"
  by (induction s) (auto simp: sublist_Cons_right)

lemma sublist_map_iff:
  "sublist k (map f h) \<longleftrightarrow> (\<exists>ps w ss. h = ps @ w @ ss \<and> map f w = k)"
  by (auto simp: sublist_def map_eq_append_conv append_eq_map_conv) blast+

lemma str_in_lower_iff:
  assumes "lower k = k"
  shows "str_in k (lower h) \<longleftrightarrow> contains_ci k h"
  using assms unfolding str_in_sublist contains_ci_def lower_def sublist_map_iff by simp

lemma any_keyword_in_iff:
  assumes "\<forall>k \<in> set ks. lower k = k"
  shows "any_keyword_in ks h \<longleftrightarrow> matches_any ks h"
  using assms by (auto simp: any_keyword_in_def matches_any_def list_ex_iff str_in_lower_iff)

lemma datetime_keywords_lower: "\<forall>k \<in> set datetime_keywords. lower k = k"
  by (simp add: datetime_keywords_def lower_def lower_char_def)

lemma volume_keywords_lower: "\<forall>k \<in> set volume_keywords. lower k = k"
  by (simp add: volume_keywords_def lower_def lower_char_def)

lemma reduced_keywords_lower: "\<forall>k \<in> set [''timestamp'', ''date'']. lower k = k"
  by (simp add: lower_def lower_char_def)

lemma date_in_longer_keywords:
  "sublist ''date'' ''datetime''" "sublist ''date'' ''date_time''"
  by (simp_all add: sublist_code)

lemma datetime_keywords_reduced:
  "any_keyword_in datetime_keywords h = any_keyword_in [''timestamp'', ''date''] h"
proof -
  have a: "sublist ''date'' (lower h)" if "sublist ''datetime'' (lower h)"
    using date_in_longer_keywords(1) that by (rule sublist_order.order_trans)
  have b: "sublist ''date'' (lower h)" if "sublist ''date_time'' (lower h)"
    using date_in_longer_keywords(2) that by (rule sublist_order.order_trans)
  show ?thesis
    using a b by (auto simp: any_keyword_in_def datetime_keywords_def str_in_sublist)
qed

section \<open>Facts about the detectors\<close>

lemma detect_datetime_with_cong:
  assumes "\<And>h. any_keyword_in ks h = any_keyword_in ks' h"
  shows "detect_datetime_with ks cols = detect_datetime_with ks' cols"
  by (induction cols) (simp_all add: assms)

lemma detect_datetime_with_None:
  "detect_datetime_with ks cols = None \<longleftrightarrow> (\<forall>h \<in> set cols. \<not> any_keyword_in ks h)"
  by (induction cols) auto

lemma detect_datetime_with_Some:
  "detect_datetime_with ks cols = Some c \<longleftrightarrow>
     (\<exists>pre post. cols = pre @ c # post \<and> any_keyword_in ks c
                  \<and> (\<forall>h \<in> set pre. \<not> any_keyword_in ks h))"
proof (induction cols)
  case Nil
  then show ?case by simp
next
  case (Cons a cols)
  show ?case
  proof (cases "any_keyword_in ks a")
    case True
    have "(\<exists>pre post. a # cols = pre @ c # post \<and> any_keyword_in ks c
             \<and> (\<forall>h \<in> set pre. \<not> any_keyword_in ks h)) \<longleftrightarrow> a = c"
    proof
      assume "\<exists>pre post. a # cols = pre @ c # post \<and> any_keyword_in ks c
                \<and> (\<forall>h \<in> set pre. \<not> any_keyword_in ks h)"
      then obtain pre post where p: "a # cols = pre @ c # post"
        and n: "\<forall>h \<in> set pre. \<not> any_keyword_in ks h" by blast
      show "a = c"
      proof (cases pre)
        case Nil
        with p show ?thesis by simp
      next
        case (Cons x xs)
        with p n True show ?thesis by simp
      qed
    next
      assume "a = c"
      with True have "a # cols = [] @ c # cols \<and> any_keyword_in ks c
                        \<and> (\<forall>h \<in> set []. \<not> any_keyword_in ks h)" by simp
      then show "\<exists>pre post. a # cols = pre @ c # post \<and> any_keyword_in ks c
                   \<and> (\<forall>h \<in> set pre. \<not> any_keyword_in ks h)" by blast
    qed
    with True show ?thesis by simp
  next
    case False
    have "(\<exists>pre post. a # cols = pre @ c # post \<and> any_keyword_in ks c
             \<and> (\<forall>h \<in> set pre. \<not> any_keyword_in ks h))
          \<longleftrightarrow> (\<exists>pre post. cols = pre @ c # post \<and> any_keyword_in ks c
             \<and> (\<forall>h \<in> set pre. \<not> any_keyword_in ks h))"
      (is "?L \<longleftrightarrow> ?R")
    proof
      assume ?L
      then obtain pre post where p: "a # cols = pre @ c # post"
        and m: "any_keyword_in ks c"
        and n: "\<forall>h \<in> set pre. \<not> any_keyword_in ks h" by blast
      show ?R
      proof (cases pre)
        case Nil
        with p m False show ?thesis by simp
      next
        case (Cons x xs)
        with p n m have "cols = xs @ c # post \<and> any_keyword_in ks c
                          \<and> (\<forall>h \<in> set xs. \<not> any_keyword_in ks h)" by simp
        then show ?thesis by blast
      qed
    next
      assume ?R
      then obtain pre post where p: "cols = pre @ c # post"
        and m: "any_keyword_in ks c"
        and n: "\<forall>h \<in> set pre. \<not> any_keyword_in ks h" by blast
      with False have "a # cols = (a # pre) @ c # post \<and> any_keyword_in ks c
                        \<and> (\<forall>h \<in> set (a # pre). \<not> any_keyword_in ks h)" by simp
      then show ?L by blast
    qed
    with False Cons.IH show ?thesis by simp
  qed
qed

lemma detect_datetime_with_in_set:
  "detect_datetime_with ks cols = Some c \<Longrightarrow> c \<in> set cols \<and> any_keyword_in ks c"
  by (induction cols) (auto split: if_splits)

lemma matching_label_nonempty: "any_keyword_in datetime_keywords c \<Longrightarrow> c \<noteq> []"
  by (auto simp: any_keyword_in_def datetime_keywords_def lower_def)

section \<open>Facts about the frame operations\<close>



lemma mask_select: "map fst (filter snd (zip xs (map f xs))) = filter f xs"
  by (induction xs) auto

lemma map2_conj: "map2 (\<and>) (map f xs) (map g xs) = map (\<lambda>x. f x \<and> g x) xs"
  by (induction xs) auto

lemma rows_select_rows:
  "rows (select_rows data (map f (rows data))) = filter f (rows data)"
  by (simp add: select_rows_def mask_select)

lemma columns_select_rows: "columns (select_rows data keep) = columns data"
  by (simp add: select_rows_def)

lemma rows_dropna:
  "rows (dropna data cols) = filter (\<lambda>r. list_all (\<lambda>i. \<not> isna (cell_at r i)) cols) (rows data)"
  by (simp add: dropna_def rows_select_rows)

lemma columns_dropna: "columns (dropna data cols) = columns data"
  by (simp add: dropna_def columns_select_rows)

lemma map2_update: "map2 (\<lambda>r v. r[i := v]) xs (map f xs) = map (\<lambda>r. r[i := f r]) xs"
  by (induction xs) auto

lemma rows_setitem_column:
  "rows (setitem data i (map g (getitem data i))) = map (\<lambda>r. r[i := g (cell_at r i)]) (rows data)"
  by (simp add: setitem_def getitem_def map2_update)

lemma columns_setitem: "columns (setitem data i values) = columns data"
  by (simp add: setitem_def)

lemma cell_at_update:
  "cell_at (r[i := v]) j = (if j = i \<and> i < length r then v else cell_at r j)"
  by (simp add: cell_at_def)

lemma index_of_append:
  "c \<notin> set pre \<Longrightarrow> index_of c (pre @ c # post) = Some (length pre)"
  by (induction pre) auto

lemma index_of_less: "index_of c cols = Some i \<Longrightarrow> i < length cols \<and> cols ! i = c"
  by (induction cols arbitrary: i) (auto split: if_splits)

lemma index_of_None: "index_of c cols = None \<longleftrightarrow> c \<notin> set cols"
  by (induction cols) auto

lemma index_of_first: "index_of c cols = Some i \<Longrightarrow> j < i \<Longrightarrow> cols ! j \<noteq> c"
proof (induction cols arbitrary: i j)
  case Nil
  then show ?case by simp
next
  case (Cons a cols)
  then show ?case by (cases j) (auto split: if_splits)
qed

section \<open>Facts about the preprocessing\<close>

lemma rows_converted:
  "rows (converted parse data i)
     = filter (\<lambda>r. \<not> isna (cell_at r i))
         (map (\<lambda>r. r[i := (case parse (cell_at r i) of Some d \<Rightarrow> Timestamp d | None \<Rightarrow> NaT)])
            (rows data))"
  by (simp add: converted_def rows_dropna to_datetime_def rows_setitem_column)

lemma columns_converted: "columns (converted parse data i) = columns data"
  by (simp add: converted_def columns_dropna columns_setitem)

lemma converted_cells:
  assumes "r \<in> set (rows (converted parse data i))"
  shows "is_timestamp (cell_at r i)"
proof -
  from assms obtain r0 where r: "r = r0[i := (case parse (cell_at r0 i) of
      Some d \<Rightarrow> Timestamp d | None \<Rightarrow> NaT)]"
    and n: "\<not> isna (cell_at r i)"
    unfolding rows_converted by auto
  show ?thesis
  proof (cases "i < length r0")
    case True
    with r n show ?thesis
      by (cases "parse (cell_at r0 i)") (simp_all add: cell_at_def isna_def)
  next
    case False
    with r n show ?thesis by (simp add: cell_at_def isna_def)
  qed
qed

lemma is_timestamp_datetime64: "is_timestamp c \<Longrightarrow> is_datetime64 c"
  by (cases c) simp_all

lemma converted_is_datetime64:
  "is_datetime64_any_dtype (getitem (converted parse data i) i)"
  by (simp add: is_datetime64_any_dtype_def getitem_def list_all_iff converted_cells
      is_timestamp_datetime64)

lemma preprocess_data_cases:
  "preprocess_data read_csv parse f =
     (case read_csv f of
        None \<Rightarrow> Inl ParseError
      | Some raw \<Rightarrow>
          (case detect_datetime_column (raw\<lparr>columns := map lower (columns raw)\<rparr>) of
             None \<Rightarrow> Inl (SchemaError ''no datetime column'')
           | Some c \<Rightarrow>
               (case index_of c (map lower (columns raw)) of
                  None \<Rightarrow> Inl (KeyError c)
                | Some i \<Rightarrow>
                    if \<not> is_datetime64_any_dtype
                          (getitem (converted parse (raw\<lparr>columns := map lower (columns raw)\<rparr>) i) i)
                    then Inl (SchemaError ''datetime conversion failed'')
                    else Inr (rename (converted parse (raw\<lparr>columns := map lower (columns raw)\<rparr>) i)
                                c ''datetime''))))"
proof -
  have ne: "c \<noteq> []"
    if "detect_datetime_column (raw\<lparr>columns := map lower (columns raw)\<rparr>) = Some c" for raw c
    using that detect_datetime_with_in_set matching_label_nonempty
    unfolding detect_datetime_column_def by blast
  show ?thesis
    by (auto simp: preprocess_data_def Let_def converted_def ne
        split: option.splits)
qed

lemma detected_index:
  assumes "detect_datetime_with ks cols = Some c"
  shows "\<exists>i. index_of c cols = Some i"
  using detect_datetime_with_in_set [OF assms] index_of_None [of c cols]
  by (cases "index_of c cols") auto

text \<open>Success, spelled out: the label found, its position, and the frame returned.\<close>

lemma preprocess_data_Inr:
  "preprocess_data read_csv parse f = Inr out \<longleftrightarrow>
     (\<exists>raw c i. read_csv f = Some raw
        \<and> detect_datetime_column (raw\<lparr>columns := map lower (columns raw)\<rparr>) = Some c
        \<and> index_of c (map lower (columns raw)) = Some i
        \<and> out = rename (converted parse (raw\<lparr>columns := map lower (columns raw)\<rparr>) i)
                   c ''datetime'')"
  unfolding preprocess_data_cases
  by (auto simp: converted_is_datetime64 split: option.splits)

lemma datetime_label_matches: "any_keyword_in datetime_keywords ''datetime''"
  by (simp add: any_keyword_in_def datetime_keywords_def lower_def lower_char_def)

lemma renamed_index:
  assumes d: "detect_datetime_with datetime_keywords cols = Some c"
    and i: "index_of c cols = Some i"
  shows "index_of ''datetime'' (map (\<lambda>h. if h = c then ''datetime'' else h) cols) = Some i"
proof -
  from d obtain pre post where cols: "cols = pre @ c # post"
    and pre: "\<forall>h \<in> set pre. \<not> any_keyword_in datetime_keywords h"
    and c: "any_keyword_in datetime_keywords c"
    unfolding detect_datetime_with_Some by blast
  from pre c have cpre: "c \<notin> set pre" by blast
  with cols i have il: "i = length pre" by (simp add: index_of_append)
  let ?f = "\<lambda>h. if h = c then ''datetime'' else h"
  from pre datetime_label_matches cpre have "''datetime'' \<notin> set (map ?f pre)" by auto
  then have "index_of ''datetime'' (map ?f pre @ ''datetime'' # map ?f post)
               = Some (length (map ?f pre))"
    by (rule index_of_append)
  with cols il show ?thesis by simp
qed

lemma count_list_renamed:
  assumes "distinct cols" and "c \<in> set cols" and "c \<noteq> new \<longrightarrow> new \<notin> set cols"
  shows "count_list (map (\<lambda>h. if h = c then new else h) cols) new = 1"
  using assms by (induction cols) (auto simp: count_list_0_iff)

text \<open>
  What \<^verbatim>\<open>preprocess_data\<close> returns is normalized, when the lower-cased headers of the
  file are distinct and none but the detected one is \<^verbatim>\<open>datetime\<close>.
\<close>

lemma preprocess_data_normalized:
  assumes "preprocess_data read_csv parse f = Inr out"
    and u: "\<And>raw. read_csv f = Some raw \<Longrightarrow> distinct (map lower (columns raw))"
    and o: "\<And>raw c. read_csv f = Some raw
              \<Longrightarrow> detect_datetime_column (raw\<lparr>columns := map lower (columns raw)\<rparr>) = Some c
              \<Longrightarrow> c \<noteq> ''datetime'' \<Longrightarrow> ''datetime'' \<notin> set (map lower (columns raw))"
  shows "\<exists>i. normalized out i"
proof -
  from assms(1) obtain raw c i where
    raw: "read_csv f = Some raw" and
    d: "detect_datetime_column (raw\<lparr>columns := map lower (columns raw)\<rparr>) = Some c"
    and i: "index_of c (map lower (columns raw)) = Some i"
    and out: "out = rename (converted parse (raw\<lparr>columns := map lower (columns raw)\<rparr>) i)
                      c ''datetime''"
    unfolding preprocess_data_Inr by blast
  from d have d': "detect_datetime_with datetime_keywords (map lower (columns raw)) = Some c"
    by (simp add: detect_datetime_column_def)
  have "index_of ''datetime'' (columns out) = Some i"
    using renamed_index [OF d' i] by (simp add: out rename_def columns_converted)
  moreover have "count_list (columns out) ''datetime'' = 1"
    using count_list_renamed [OF u [OF raw], of c "''datetime''"]
      detect_datetime_with_in_set [OF d'] o [OF raw d]
    by (auto simp: out rename_def columns_converted)
  moreover have "list_all (\<lambda>r. is_timestamp (cell_at r i)) (rows out)"
    by (simp add: out rename_def list_all_iff converted_cells)
  ultimately have "normalized out i" by (simp add: normalized_def labelled_once_def)
  then show ?thesis ..
qed






section \<open>Facts about the window filter\<close>





lemma preprocess_data_Inl:
  assumes "preprocess_data read_csv parse f = Inl e"
  shows "e = ParseError \<or> e = SchemaError ''no datetime column''
           \<or> e = SchemaError ''datetime conversion failed''"
proof -
  have "\<exists>i. index_of c (map lower (columns raw)) = Some i"
    if "detect_datetime_column (raw\<lparr>columns := map lower (columns raw)\<rparr>) = Some c" for raw c
    using that detected_index [of datetime_keywords "map lower (columns raw)" c]
    by (simp add: detect_datetime_column_def)
  with assms show ?thesis
    unfolding preprocess_data_cases by (fastforce split: option.splits if_splits)
qed

section \<open>Facts about the calendar and the clock\<close>







lemma build_window_Inl: "build_window sel = Inl e \<Longrightarrow> e = InvalidDateError"
  by (auto simp: build_window_def split: option.splits)

section \<open>Facts about the map function\<close>

text \<open>The two in-place assignments, on one row.\<close>

lemma plot_Missing:
  assumes "index_of ''longitude'' (columns data) = None \<or> index_of ''latitude'' (columns data) = None"
  shows "plot_folium_map_with_geojson coerce data = (data, MissingColumns)"
  using assms by (auto simp: plot_folium_map_with_geojson_def split: option.splits)

lemma positions_differ:
  assumes "index_of ''latitude'' cols = Some lat" and "index_of ''longitude'' cols = Some lon"
  shows "lat \<noteq> lon"
proof
  assume "lat = lon"
  with index_of_less [OF assms(1)] index_of_less [OF assms(2)]
  have "''latitude'' = ''longitude''" by simp
  then show False by simp
qed

lemma plot_caller:
  assumes lat: "index_of ''latitude'' (columns data) = Some lat"
    and lon: "index_of ''longitude'' (columns data) = Some lon"
  shows "fst (plot_folium_map_with_geojson coerce data)
           = data\<lparr>rows :=
               map (\<lambda>r. r[lat := (case coerce (cell_at r lat) of Some x \<Rightarrow> Num x | None \<Rightarrow> NaN),
                           lon := (case coerce (cell_at r lon) of Some x \<Rightarrow> Num x | None \<Rightarrow> NaN)])
                 (rows data)\<rparr>"
proof -
  let ?cn = "\<lambda>c. case coerce c of Some x \<Rightarrow> Num x | None \<Rightarrow> NaN"
  let ?c1 = "setitem data lat (to_numeric coerce (getitem data lat))"
  have ne: "lat \<noteq> lon" using positions_differ [OF lat lon] .
  have r1: "rows ?c1 = map (\<lambda>r. r[lat := ?cn (cell_at r lat)]) (rows data)"
    by (simp add: to_numeric_def rows_setitem_column)
  have "rows (setitem ?c1 lon (to_numeric coerce (getitem ?c1 lon)))
          = map (\<lambda>r. r[lon := ?cn (cell_at r lon)]) (rows ?c1)"
    by (simp add: to_numeric_def rows_setitem_column)
  also have "\<dots> = map (\<lambda>r. r[lat := ?cn (cell_at r lat), lon := ?cn (cell_at r lon)]) (rows data)"
    using ne by (simp add: r1 cell_at_update comp_def)
  finally have "rows (setitem ?c1 lon (to_numeric coerce (getitem ?c1 lon)))
      = map (\<lambda>r. r[lat := ?cn (cell_at r lat), lon := ?cn (cell_at r lon)]) (rows data)" .
  moreover have "fst (plot_folium_map_with_geojson coerce data)
      = setitem ?c1 lon (to_numeric coerce (getitem ?c1 lon))"
    using lat lon by (simp add: plot_folium_map_with_geojson_def Let_def)
  moreover have "columns (setitem ?c1 lon (to_numeric coerce (getitem ?c1 lon))) = columns data"
    by (simp add: columns_setitem)
  ultimately show ?thesis by simp
qed

lemma coerced_row_survives:
  assumes "lat \<noteq> lon" and "lat < length r" and "lon < length r"
  shows "(\<not> isna (cell_at (r[lat := (case coerce (cell_at r lat) of Some x \<Rightarrow> Num x | None \<Rightarrow> NaN),
                              lon := (case coerce (cell_at r lon) of Some x \<Rightarrow> Num x | None \<Rightarrow> NaN)])
                      lat)
          \<and> \<not> isna (cell_at (r[lat := (case coerce (cell_at r lat) of Some x \<Rightarrow> Num x | None \<Rightarrow> NaN),
                              lon := (case coerce (cell_at r lon) of Some x \<Rightarrow> Num x | None \<Rightarrow> NaN)])
                      lon)
          \<and> between (- 90) 90
               (cell_at (r[lat := (case coerce (cell_at r lat) of Some x \<Rightarrow> Num x | None \<Rightarrow> NaN),
                           lon := (case coerce (cell_at r lon) of Some x \<Rightarrow> Num x | None \<Rightarrow> NaN)])
                  lat)
          \<and> between (- 180) 180
               (cell_at (r[lat := (case coerce (cell_at r lat) of Some x \<Rightarrow> Num x | None \<Rightarrow> NaN),
                           lon := (case coerce (cell_at r lon) of Some x \<Rightarrow> Num x | None \<Rightarrow> NaN)])
                  lon))
         = valid_point coerce lat lon r"
  using assms
  by (cases "coerce (cell_at r lat)"; cases "coerce (cell_at r lon)")
    (auto simp: cell_at_update valid_point_def isna_def)

lemma filter_filter_map:
  assumes "\<And>x. x \<in> set xs \<Longrightarrow> (P (f x) \<and> Q (f x)) = V x"
  shows "filter Q (filter P (map f xs)) = map f (filter V xs)"
  using assms by (induction xs) auto

lemma plot_shown:
  assumes rect: "rectangular data"
    and lat: "index_of ''latitude'' (columns data) = Some lat"
    and lon: "index_of ''longitude'' (columns data) = Some lon"
  shows "snd (plot_folium_map_with_geojson coerce data)
           = (if filter (valid_point coerce lat lon) (rows data) = [] then NoValidPoints
              else Points
                (data\<lparr>rows :=
                   map (\<lambda>r. r[lat := (case coerce (cell_at r lat) of Some x \<Rightarrow> Num x | None \<Rightarrow> NaN),
                               lon := (case coerce (cell_at r lon) of Some x \<Rightarrow> Num x | None \<Rightarrow> NaN)])
                     (filter (valid_point coerce lat lon) (rows data))\<rparr>))"
proof -
  let ?cn = "\<lambda>c. case coerce c of Some x \<Rightarrow> Num x | None \<Rightarrow> NaN"
  let ?upd = "\<lambda>r. r[lat := ?cn (cell_at r lat), lon := ?cn (cell_at r lon)]"
  let ?caller = "data\<lparr>rows := map ?upd (rows data)\<rparr>"
  let ?local1 = "dropna ?caller [lat, lon]"
  let ?local2 = "select_rows ?local1
                   (map2 (\<and>) (map (between (- 90) 90) (getitem ?local1 lat))
                              (map (between (- 180) 180) (getitem ?local1 lon)))"
  have ne: "lat \<noteq> lon" using positions_differ [OF lat lon] .
  from index_of_less [OF lat] index_of_less [OF lon] rect
  have len: "\<And>r. r \<in> set (rows data) \<Longrightarrow> lat < length r \<and> lon < length r"
    by (simp add: rectangular_def list_all_iff)
  have caller: "fst (plot_folium_map_with_geojson coerce data) = ?caller"
    by (rule plot_caller [OF lat lon])
  have shown: "snd (plot_folium_map_with_geojson coerce data)
                 = (if empty ?local2 then NoValidPoints else Points ?local2)"
    using lat lon caller
    by (simp add: plot_folium_map_with_geojson_def Let_def)
  have r1: "rows ?local1
              = filter (\<lambda>r. \<not> isna (cell_at r lat) \<and> \<not> isna (cell_at r lon)) (map ?upd (rows data))"
    by (simp add: rows_dropna)
  have "rows ?local2
          = filter (\<lambda>r. between (- 90) 90 (cell_at r lat) \<and> between (- 180) 180 (cell_at r lon))
              (rows ?local1)"
    by (simp add: getitem_def map2_conj rows_select_rows)
  also have "\<dots> = map ?upd (filter (valid_point coerce lat lon) (rows data))"
    unfolding r1
    by (rule filter_filter_map) (use coerced_row_survives [OF ne] len in auto)
  finally have r2: "rows ?local2 = map ?upd (filter (valid_point coerce lat lon) (rows data))" .
  have c2: "columns ?local2 = columns data"
    by (simp add: columns_select_rows columns_dropna)
  from index_of_less [OF lat] have cne: "columns data \<noteq> []" by auto
  have e: "empty ?local2 = (filter (valid_point coerce lat lon) (rows data) = [])"
    using cne by (simp add: empty_def r2 c2)
  have eq: "?local2 = data\<lparr>rows := map ?upd (filter (valid_point coerce lat lon) (rows data))\<rparr>"
    using r2 c2 by (cases data) (simp add: select_rows_def dropna_def)
  have "snd (plot_folium_map_with_geojson coerce data)
          = (if filter (valid_point coerce lat lon) (rows data) = [] then NoValidPoints
             else Points ?local2)"
    by (simp only: shown e)
  then show ?thesis by (simp only: eq)
qed

lemma between_not_na: "between lo hi c \<Longrightarrow> \<not> isna c"
  by (cases c) (simp_all add: isna_def)

lemma plot_points_of_caller:
  assumes rect: "rectangular data"
    and lat: "index_of ''latitude'' (columns data) = Some lat"
    and lon: "index_of ''longitude'' (columns data) = Some lon"
    and p: "snd (plot_folium_map_with_geojson coerce data) = Points p"
  shows "columns p = columns data
         \<and> rows p = filter (\<lambda>r. between (- 90) 90 (cell_at r lat) \<and> between (- 180) 180 (cell_at r lon))
                      (rows (fst (plot_folium_map_with_geojson coerce data)))"
proof -
  let ?upd = "\<lambda>r. r[lat := (case coerce (cell_at r lat) of Some x \<Rightarrow> Num x | None \<Rightarrow> NaN),
                     lon := (case coerce (cell_at r lon) of Some x \<Rightarrow> Num x | None \<Rightarrow> NaN)]"
  have ne: "lat \<noteq> lon" using positions_differ [OF lat lon] .
  from index_of_less [OF lat] index_of_less [OF lon] rect
  have len: "\<And>r. r \<in> set (rows data) \<Longrightarrow> lat < length r \<and> lon < length r"
    by (simp add: rectangular_def list_all_iff)
  from p have pp: "p = data\<lparr>rows := map ?upd (filter (valid_point coerce lat lon) (rows data))\<rparr>"
    unfolding plot_shown [OF rect lat lon] by (simp split: if_splits)
  have v: "(between (- 90) 90 (cell_at (?upd r) lat) \<and> between (- 180) 180 (cell_at (?upd r) lon))
             = valid_point coerce lat lon r"
    if "r \<in> set (rows data)" for r
    using coerced_row_survives [OF ne, of r coerce] len [OF that] between_not_na by blast
  have "filter (\<lambda>r. between (- 90) 90 (cell_at r lat) \<and> between (- 180) 180 (cell_at r lon))
          (map ?upd (rows data))
        = map ?upd (filter (valid_point coerce lat lon) (rows data))"
    using v by (simp add: filter_map comp_def cong: filter_cong)
  then show ?thesis
    by (simp add: pp plot_caller [OF lat lon])
qed

section \<open>Facts about the offered years and times\<close>

lemma set_dt_year:
  "set (dt_year (getitem data i))
     = {y. \<exists>r \<in> set (rows data). \<exists>d. cell_at r i = Timestamp d \<and> year d = y}"
proof -
  have "set (dt_year cs) = {y. \<exists>c \<in> set cs. \<exists>d. c = Timestamp d \<and> year d = y}" for cs
    by (induction cs) (auto simp: dt_year_def List.map_filter_simps split: cell.splits)
  then show ?thesis by (auto simp: getitem_def)
qed

lemma time_options_read:
  "map parse_hms generate_time_options = [Some (h, 5 * k, 0). h \<leftarrow> [0 ..< 24], k \<leftarrow> [0 ..< 12]]"
  by code_simp

lemma time_options_count: "length generate_time_options = 288"
  by code_simp

lemma time_options_ends:
  "hd generate_time_options = ''00:00:00''" "last generate_time_options = ''23:55:00''"
  by code_simp+

section \<open>Column classification\<close>

text \<open>
  C1, as the code has it. The datetime column is the first header, in the order of the
  header, that contains one of the datetime keywords case-insensitively, and none when
  no header does. The volume columns are the headers that contain one of the volume
  keywords case-insensitively, each occurrence once and in the order of the header;
  so the result has no duplicates whenever the header has none.
\<close>

theorem classify_first_match_and_all_matches:
  "(detect_datetime_column data = None
      \<longleftrightarrow> \<not> (\<exists>h \<in> set (columns data). matches_any datetime_keywords h))
   \<and> (\<forall>c. detect_datetime_column data = Some c
          \<longleftrightarrow> (\<exists>pre post. columns data = pre @ c # post \<and> matches_any datetime_keywords c
                 \<and> (\<forall>h \<in> set pre. \<not> matches_any datetime_keywords h)))
   \<and> detect_traffic_volume_columns data = filter (matches_any volume_keywords) (columns data)
   \<and> (distinct (columns data) \<longrightarrow> distinct (detect_traffic_volume_columns data))"
proof -
  have d: "any_keyword_in datetime_keywords h = matches_any datetime_keywords h" for h
    by (rule any_keyword_in_iff [OF datetime_keywords_lower])
  have v: "any_keyword_in volume_keywords = matches_any volume_keywords"
    by (rule ext) (rule any_keyword_in_iff [OF volume_keywords_lower])
  have 1: "detect_datetime_column data = None
             \<longleftrightarrow> \<not> (\<exists>h \<in> set (columns data). matches_any datetime_keywords h)"
    by (simp add: detect_datetime_column_def detect_datetime_with_None d)
  have 2: "detect_datetime_column data = Some c
             \<longleftrightarrow> (\<exists>pre post. columns data = pre @ c # post \<and> matches_any datetime_keywords c
                    \<and> (\<forall>h \<in> set pre. \<not> matches_any datetime_keywords h))" for c
    by (simp add: detect_datetime_column_def detect_datetime_with_Some d)
  have 3: "detect_traffic_volume_columns data
             = filter (matches_any volume_keywords) (columns data)"
    by (simp add: detect_traffic_volume_columns_def v)
  have 4: "distinct (columns data) \<longrightarrow> distinct (detect_traffic_volume_columns data)"
    by (simp add: detect_traffic_volume_columns_def)
  from 1 2 3 4 show ?thesis by blast
qed

theorem classify_first_match_and_all_matches_witness:
  "distinct [''ID'', ''Time_Stamp'', ''Traffic_Volume'', ''Vehicle Count'']
   \<and> detect_traffic_volume_columns
       \<lparr>columns = [''ID'', ''Time_Stamp'', ''Traffic_Volume'', ''Vehicle Count''], rows = []\<rparr>
     = filter (matches_any volume_keywords)
         [''ID'', ''Time_Stamp'', ''Traffic_Volume'', ''Vehicle Count'']
   \<and> distinct (detect_traffic_volume_columns
       \<lparr>columns = [''ID'', ''Time_Stamp'', ''Traffic_Volume'', ''Vehicle Count''], rows = []\<rparr>)"
  using classify_first_match_and_all_matches
    [of "\<lparr>columns = [''ID'', ''Time_Stamp'', ''Traffic_Volume'', ''Vehicle Count''], rows = []\<rparr>"]
  by simp

text \<open>
  The header of a frame may repeat a label (the headers \<^verbatim>\<open>Count\<close> and \<^verbatim>\<open>count\<close> are
  both \<^verbatim>\<open>count\<close> once the headers are lower-cased); the comprehension then returns
  the label once per occurrence.
\<close>

theorem volume_columns_repeat_counterexample:
  "\<not> distinct (detect_traffic_volume_columns \<lparr>columns = [''count'', ''count''], rows = []\<rparr>)"
  by (simp add: detect_traffic_volume_columns_def any_keyword_in_def volume_keywords_def
      lower_def lower_char_def)

section \<open>The time window filter\<close>



section \<open>What normalizing does to a table\<close>




section \<open>When normalizing fails\<close>




section \<open>Building the window\<close>



section \<open>The two failures of the map\<close>

text \<open>
  C6. The map function reports missing columns when the table has no column labelled
  \<^verbatim>\<open>latitude\<close> or none labelled \<^verbatim>\<open>longitude\<close>. When each names one column, at the
  positions \<open>lat\<close> and \<open>lon\<close> of a rectangular table, it reports that no valid point is left
  exactly when no row has coordinates that convert to numbers with
  \<open>-90 \<le> latitude \<le> 90\<close> and \<open>-180 \<le> longitude \<le> 180\<close>, and it never reports missing
  columns then. The two reports are different.
\<close>

theorem geo_statuses_distinguished:
  "((''latitude'' \<notin> set (columns data) \<or> ''longitude'' \<notin> set (columns data))
      \<longrightarrow> snd (plot_folium_map_with_geojson coerce data) = MissingColumns)
   \<and> (rectangular data \<and> labelled_once ''latitude'' data lat
        \<and> labelled_once ''longitude'' data lon
      \<longrightarrow> (snd (plot_folium_map_with_geojson coerce data) = NoValidPoints
             \<longleftrightarrow> \<not> (\<exists>r \<in> set (rows data). valid_point coerce lat lon r))
          \<and> snd (plot_folium_map_with_geojson coerce data) \<noteq> MissingColumns)
   \<and> MissingColumns \<noteq> NoValidPoints"
proof -
  have 1: "snd (plot_folium_map_with_geojson coerce data) = MissingColumns"
    if "''latitude'' \<notin> set (columns data) \<or> ''longitude'' \<notin> set (columns data)"
  proof -
    from that have "index_of ''longitude'' (columns data) = None
                      \<or> index_of ''latitude'' (columns data) = None"
      by (auto simp: index_of_None)
    from plot_Missing [OF this] show ?thesis by simp
  qed
  have 2: "(snd (plot_folium_map_with_geojson coerce data) = NoValidPoints
              \<longleftrightarrow> \<not> (\<exists>r \<in> set (rows data). valid_point coerce lat lon r))
           \<and> snd (plot_folium_map_with_geojson coerce data) \<noteq> MissingColumns"
    if "rectangular data \<and> labelled_once ''latitude'' data lat
          \<and> labelled_once ''longitude'' data lon"
  proof -
    from that have "rectangular data \<and> index_of ''latitude'' (columns data) = Some lat
          \<and> index_of ''longitude'' (columns data) = Some lon"
      by (simp add: labelled_once_def)
    then have s: "snd (plot_folium_map_with_geojson coerce data)
        = (if filter (valid_point coerce lat lon) (rows data) = [] then NoValidPoints
           else Points
             (data\<lparr>rows :=
                map (\<lambda>r. r[lat := (case coerce (cell_at r lat) of Some x \<Rightarrow> Num x | None \<Rightarrow> NaN),
                            lon := (case coerce (cell_at r lon) of Some x \<Rightarrow> Num x | None \<Rightarrow> NaN)])
                  (filter (valid_point coerce lat lon) (rows data))\<rparr>))"
      using plot_shown by blast
    show ?thesis
      unfolding s by (auto simp: filter_empty_conv)
  qed
  from 1 2 show ?thesis by simp
qed

theorem geo_statuses_distinguished_witness:
  "''longitude'' \<notin> set [''datetime'', ''latitude'']
   \<and> snd (plot_folium_map_with_geojson numbers_only
            \<lparr>columns = [''datetime'', ''latitude''],
             rows = [[Timestamp (2024, 1, 1, 0, 0, 0, 0), Num 45]]\<rparr>) = MissingColumns
   \<and> rectangular \<lparr>columns = [''latitude'', ''longitude''], rows = [[Num 91, Num 0]]\<rparr>
   \<and> snd (plot_folium_map_with_geojson numbers_only
            \<lparr>columns = [''latitude'', ''longitude''], rows = [[Num 91, Num 0]]\<rparr>) = NoValidPoints
   \<and> snd (plot_folium_map_with_geojson numbers_only
            \<lparr>columns = [''latitude'', ''longitude''],
             rows = [[Str ''N/A'', Str ''N/A''], [NaN, NaN]]\<rparr>) = NoValidPoints"
proof -
  let ?a = "\<lparr>columns = [''datetime'', ''latitude''],
             rows = [[Timestamp (2024, 1, 1, 0, 0, 0, 0), Num 45]]\<rparr>"
  let ?b = "\<lparr>columns = [''latitude'', ''longitude''], rows = [[Num 91, Num 0]]\<rparr>"
  let ?c = "\<lparr>columns = [''latitude'', ''longitude''],
             rows = [[Str ''N/A'', Str ''N/A''], [NaN, NaN]]\<rparr>"
  have m: "''longitude'' \<notin> set [''datetime'', ''latitude'']" by simp
  with geo_statuses_distinguished [of ?a numbers_only]
  have 1: "snd (plot_folium_map_with_geojson numbers_only ?a) = MissingColumns" by simp
  have rb: "rectangular ?b" by (simp add: rectangular_def)
  have ib: "labelled_once ''latitude'' ?b 0 \<and> labelled_once ''longitude'' ?b 1"
    by (simp add: labelled_once_def)
  have nb: "\<not> (\<exists>r \<in> set (rows ?b). valid_point numbers_only 0 1 r)"
    by (simp add: valid_point_def cell_at_def)
  from geo_statuses_distinguished [of ?b numbers_only 0 1] rb ib nb
  have 2: "snd (plot_folium_map_with_geojson numbers_only ?b) = NoValidPoints" by blast
  have rc: "rectangular ?c" by (simp add: rectangular_def)
  have ic: "labelled_once ''latitude'' ?c 0 \<and> labelled_once ''longitude'' ?c 1"
    by (simp add: labelled_once_def)
  have nc: "\<not> (\<exists>r \<in> set (rows ?c). valid_point numbers_only 0 1 r)"
    by (simp add: valid_point_def cell_at_def)
  from geo_statuses_distinguished [of ?c numbers_only 0 1] rc ic nc
  have 3: "snd (plot_folium_map_with_geojson numbers_only ?c) = NoValidPoints" by blast
  from m 1 rb 2 3 show ?thesis by blast
qed

section \<open>The offered years, months, days and times\<close>

text \<open>
  C7. On a normalized table the years offered are the distinct years of its
  timestamps in ascending order, and the year of every row is among them. The months
  offered are 1 to 12 and the days 1 to 31, whatever the table holds. The times offered
  are 288 strings, from \<^verbatim>\<open>00:00:00\<close> to \<^verbatim>\<open>23:55:00\<close>; read back, they are the hours 0 to
  23, each with the minutes 0, 5, ..., 55 and the second 0, in that order.
\<close>

theorem window_domains:
  assumes "normalized data i"
  shows "years data i
           = sorted_list_of_set
               {y. \<exists>r \<in> set (rows data). \<exists>d. cell_at r i = Timestamp d \<and> year d = y}
         \<and> sorted (years data i) \<and> distinct (years data i)
         \<and> (\<forall>r \<in> set (rows data). \<exists>d. cell_at r i = Timestamp d \<and> year d \<in> set (years data i))
         \<and> months = [1, 2, 3, 4, 5, 6, 7, 8, 9, 10, 11, 12]
         \<and> days = [1, 2, 3, 4, 5, 6, 7, 8, 9, 10, 11, 12, 13, 14, 15, 16, 17, 18, 19, 20, 21,
                    22, 23, 24, 25, 26, 27, 28, 29, 30, 31]
         \<and> length generate_time_options = 288
         \<and> hd generate_time_options = ''00:00:00''
         \<and> last generate_time_options = ''23:55:00''
         \<and> map parse_hms generate_time_options
             = [Some (h, 5 * k, 0). h \<leftarrow> [0 ..< 24], k \<leftarrow> [0 ..< 12]]"
proof -
  let ?ys = "{y. \<exists>r \<in> set (rows data). \<exists>d. cell_at r i = Timestamp d \<and> year d = y}"
  have "sorted_list_of_set (set (dt_year (getitem data i)))
          = sort (remdups (dt_year (getitem data i)))"
    by (rule sorted_list_of_set_sort_remdups)
  then have 1: "years data i = sorted_list_of_set ?ys"
    by (simp only: years_def set_dt_year)
  have 2: "sorted (years data i)" "distinct (years data i)"
    by (simp_all add: years_def)
  have s: "set (years data i) = ?ys"
    by (simp add: years_def set_dt_year)
  have 3: "\<exists>d. cell_at r i = Timestamp d \<and> year d \<in> set (years data i)"
    if r: "r \<in> set (rows data)" for r
  proof -
    from assms r have "is_timestamp (cell_at r i)"
      by (simp add: normalized_def list_all_iff)
    then obtain d where d: "cell_at r i = Timestamp d"
      by (cases "cell_at r i") simp_all
    with r have "year d \<in> ?ys" by blast
    with d s show ?thesis by simp
  qed
  have 4: "months = [1, 2, 3, 4, 5, 6, 7, 8, 9, 10, 11, 12]"
    by code_simp
  have 5: "days = [1, 2, 3, 4, 5, 6, 7, 8, 9, 10, 11, 12, 13, 14, 15, 16, 17, 18, 19, 20, 21,
                   22, 23, 24, 25, 26, 27, 28, 29, 30, 31]"
    by code_simp
  from 1 2 3 4 5 time_options_count time_options_ends time_options_read
  show ?thesis by blast
qed

theorem window_domains_witness:
  "normalized
     \<lparr>columns = [''datetime'', ''volume''],
      rows = [[Timestamp (2024, 3, 1, 8, 0, 0, 0), Num 5],
              [Timestamp (2021, 7, 9, 0, 0, 0, 0), Num 6],
              [Timestamp (2024, 1, 1, 0, 0, 0, 0), Num 7]]\<rparr> 0
   \<and> years
       \<lparr>columns = [''datetime'', ''volume''],
        rows = [[Timestamp (2024, 3, 1, 8, 0, 0, 0), Num 5],
                [Timestamp (2021, 7, 9, 0, 0, 0, 0), Num 6],
                [Timestamp (2024, 1, 1, 0, 0, 0, 0), Num 7]]\<rparr> 0 = [2021, 2024]
   \<and> distinct (years
       \<lparr>columns = [''datetime'', ''volume''],
        rows = [[Timestamp (2024, 3, 1, 8, 0, 0, 0), Num 5],
                [Timestamp (2021, 7, 9, 0, 0, 0, 0), Num 6],
                [Timestamp (2024, 1, 1, 0, 0, 0, 0), Num 7]]\<rparr> 0)"
proof -
  let ?data = "\<lparr>columns = [''datetime'', ''volume''],
      rows = [[Timestamp (2024, 3, 1, 8, 0, 0, 0), Num 5],
              [Timestamp (2021, 7, 9, 0, 0, 0, 0), Num 6],
              [Timestamp (2024, 1, 1, 0, 0, 0, 0), Num 7]]\<rparr>"
  have n: "normalized ?data 0"
    by (simp add: normalized_def labelled_once_def cell_at_def)
  have y: "years ?data 0 = [2021, 2024]"
    by (simp add: years_def dt_year_def getitem_def cell_at_def List.map_filter_simps year_def)
  from window_domains [OF n] have "distinct (years ?data 0)" by blast
  with n y show ?thesis by blast
qed

section \<open>What the map function does to the caller's table\<close>

text \<open>
  C8, as the code has it. The map function leaves the caller's table alone when a
  coordinate column is missing. Otherwise, on a rectangular table with one latitude
  column, at position \<open>lat\<close>, and one longitude column, at \<open>lon\<close>, the caller's table
  keeps its header,
  the number of its rows and every cell outside the two coordinate columns, while the
  cells of the two coordinate columns are overwritten with what they convert to: the
  number, or \<open>NaN\<close> for a value that does not convert. A cell whose number the
  conversion returns as it is keeps its value, out of range or not. The rows that are
  plotted are those rows of the overwritten table whose coordinates are in range; the
  others are left out of the plot only.
\<close>

theorem sanitizing_keeps_rows_coerces_coordinates:
  "((''latitude'' \<notin> set (columns data) \<or> ''longitude'' \<notin> set (columns data))
      \<longrightarrow> fst (plot_folium_map_with_geojson coerce data) = data)
   \<and> (rectangular data \<and> labelled_once ''latitude'' data lat
        \<and> labelled_once ''longitude'' data lon
      \<longrightarrow> columns (fst (plot_folium_map_with_geojson coerce data)) = columns data
          \<and> length (rows (fst (plot_folium_map_with_geojson coerce data))) = length (rows data)
          \<and> (\<forall>k < length (rows data). \<forall>j.
                cell_at (rows (fst (plot_folium_map_with_geojson coerce data)) ! k) j
                  = (if j = lat \<or> j = lon
                     then (case coerce (cell_at (rows data ! k) j) of
                             Some x \<Rightarrow> Num x | None \<Rightarrow> NaN)
                     else cell_at (rows data ! k) j))
          \<and> (\<forall>k < length (rows data). \<forall>j x.
                cell_at (rows data ! k) j = Num x \<and> coerce (Num x) = Some x
                \<longrightarrow> cell_at (rows (fst (plot_folium_map_with_geojson coerce data)) ! k) j = Num x)
          \<and> (\<forall>p. snd (plot_folium_map_with_geojson coerce data) = Points p
                \<longrightarrow> columns p = columns data
                    \<and> rows p
                        = filter (\<lambda>r. between (- 90) 90 (cell_at r lat)
                                      \<and> between (- 180) 180 (cell_at r lon))
                            (rows (fst (plot_folium_map_with_geojson coerce data)))))"
proof -
  have 1: "fst (plot_folium_map_with_geojson coerce data) = data"
    if "''latitude'' \<notin> set (columns data) \<or> ''longitude'' \<notin> set (columns data)"
  proof -
    from that have "index_of ''longitude'' (columns data) = None
                      \<or> index_of ''latitude'' (columns data) = None"
      by (auto simp: index_of_None)
    from plot_Missing [OF this] show ?thesis by simp
  qed
  have 2: "columns (fst (plot_folium_map_with_geojson coerce data)) = columns data
          \<and> length (rows (fst (plot_folium_map_with_geojson coerce data))) = length (rows data)
          \<and> (\<forall>k < length (rows data). \<forall>j.
                cell_at (rows (fst (plot_folium_map_with_geojson coerce data)) ! k) j
                  = (if j = lat \<or> j = lon
                     then (case coerce (cell_at (rows data ! k) j) of
                             Some x \<Rightarrow> Num x | None \<Rightarrow> NaN)
                     else cell_at (rows data ! k) j))
          \<and> (\<forall>k < length (rows data). \<forall>j x.
                cell_at (rows data ! k) j = Num x \<and> coerce (Num x) = Some x
                \<longrightarrow> cell_at (rows (fst (plot_folium_map_with_geojson coerce data)) ! k) j = Num x)
          \<and> (\<forall>p. snd (plot_folium_map_with_geojson coerce data) = Points p
                \<longrightarrow> columns p = columns data
                    \<and> rows p
                        = filter (\<lambda>r. between (- 90) 90 (cell_at r lat)
                                      \<and> between (- 180) 180 (cell_at r lon))
                            (rows (fst (plot_folium_map_with_geojson coerce data))))"
    if h: "rectangular data \<and> labelled_once ''latitude'' data lat
             \<and> labelled_once ''longitude'' data lon"
  proof -
    from h have rect: "rectangular data"
      and lat: "index_of ''latitude'' (columns data) = Some lat"
      and lon: "index_of ''longitude'' (columns data) = Some lon"
      by (simp_all add: labelled_once_def)
    let ?cn = "\<lambda>c. case coerce c of Some x \<Rightarrow> Num x | None \<Rightarrow> NaN"
    let ?upd = "\<lambda>r. r[lat := ?cn (cell_at r lat), lon := ?cn (cell_at r lon)]"
    let ?caller = "fst (plot_folium_map_with_geojson coerce data)"
    have c: "?caller = data\<lparr>rows := map ?upd (rows data)\<rparr>"
      by (rule plot_caller [OF lat lon])
    have ne: "lat \<noteq> lon" using positions_differ [OF lat lon] .
    from index_of_less [OF lat] index_of_less [OF lon] rect
    have len: "\<And>r. r \<in> set (rows data) \<Longrightarrow> lat < length r \<and> lon < length r"
      by (simp add: rectangular_def list_all_iff)
    have a: "columns ?caller = columns data" by (simp add: c)
    have b: "length (rows ?caller) = length (rows data)" by (simp add: c)
    have cell: "cell_at (rows ?caller ! k) j
                  = (if j = lat \<or> j = lon then ?cn (cell_at (rows data ! k) j)
                     else cell_at (rows data ! k) j)"
      if k: "k < length (rows data)" for k j
    proof -
      from k have "rows data ! k \<in> set (rows data)" by simp
      from len [OF this] ne k show ?thesis
        by (auto simp: c cell_at_update)
    qed
    have keep: "cell_at (rows ?caller ! k) j = Num x"
      if k: "k < length (rows data)"
        and x: "cell_at (rows data ! k) j = Num x \<and> coerce (Num x) = Some x" for k j x
      using cell [OF k, of j] x by simp
    have pts: "columns p = columns data
               \<and> rows p = filter (\<lambda>r. between (- 90) 90 (cell_at r lat)
                                      \<and> between (- 180) 180 (cell_at r lon)) (rows ?caller)"
      if "snd (plot_folium_map_with_geojson coerce data) = Points p" for p
      using plot_points_of_caller [OF rect lat lon that] .
    from a b cell keep pts show ?thesis by blast
  qed
  from 1 2 show ?thesis by blast
qed

theorem sanitizing_keeps_rows_coerces_coordinates_witness:
  "rectangular
     \<lparr>columns = [''id'', ''latitude'', ''longitude''],
      rows = [[Str ''a'', Num 45, Num 7], [Str ''b'', Num 91, Num 0],
              [Str ''c'', Str ''north'', Num 3]]\<rparr>
   \<and> plot_folium_map_with_geojson numbers_only
       \<lparr>columns = [''id'', ''latitude'', ''longitude''],
        rows = [[Str ''a'', Num 45, Num 7], [Str ''b'', Num 91, Num 0],
                [Str ''c'', Str ''north'', Num 3]]\<rparr>
     = (\<lparr>columns = [''id'', ''latitude'', ''longitude''],
         rows = [[Str ''a'', Num 45, Num 7], [Str ''b'', Num 91, Num 0],
                 [Str ''c'', NaN, Num 3]]\<rparr>,
        Points \<lparr>columns = [''id'', ''latitude'', ''longitude''],
                rows = [[Str ''a'', Num 45, Num 7]]\<rparr>)
   \<and> length (rows (fst (plot_folium_map_with_geojson numbers_only
       \<lparr>columns = [''id'', ''latitude'', ''longitude''],
        rows = [[Str ''a'', Num 45, Num 7], [Str ''b'', Num 91, Num 0],
                [Str ''c'', Str ''north'', Num 3]]\<rparr>))) = 3"
proof -
  let ?data = "\<lparr>columns = [''id'', ''latitude'', ''longitude''],
      rows = [[Str ''a'', Num 45, Num 7], [Str ''b'', Num 91, Num 0],
              [Str ''c'', Str ''north'', Num 3]]\<rparr>"
  have r: "rectangular ?data" by (simp add: rectangular_def)
  have i: "labelled_once ''latitude'' ?data 1 \<and> labelled_once ''longitude'' ?data 2"
    by (simp add: labelled_once_def)
  have e: "plot_folium_map_with_geojson numbers_only ?data
     = (\<lparr>columns = [''id'', ''latitude'', ''longitude''],
         rows = [[Str ''a'', Num 45, Num 7], [Str ''b'', Num 91, Num 0],
                 [Str ''c'', NaN, Num 3]]\<rparr>,
        Points \<lparr>columns = [''id'', ''latitude'', ''longitude''],
                rows = [[Str ''a'', Num 45, Num 7]]\<rparr>)"
    by (simp add: plot_folium_map_with_geojson_def setitem_def getitem_def to_numeric_def
        dropna_def select_rows_def cell_at_def isna_def empty_def)
  from sanitizing_keeps_rows_coerces_coordinates [of ?data numbers_only 1 2] r i
  have "length (rows (fst (plot_folium_map_with_geojson numbers_only ?data))) = length (rows ?data)"
    by blast
  then have "length (rows (fst (plot_folium_map_with_geojson numbers_only ?data))) = 3"
    by simp
  with r e show ?thesis by blast
qed

text \<open>
  A latitude that does not convert is overwritten in the table of the caller: the
  column that held \<^verbatim>\<open>north\<close> holds \<open>NaN\<close> after the call.
\<close>

theorem sanitizing_overwrites_latitude_counterexample:
  "getitem \<lparr>columns = [''latitude'', ''longitude''], rows = [[Str ''north'', Num 10]]\<rparr> 0
     = [Str ''north'']
   \<and> getitem (fst (plot_folium_map_with_geojson numbers_only
        \<lparr>columns = [''latitude'', ''longitude''], rows = [[Str ''north'', Num 10]]\<rparr>)) 0
     = [NaN]"
  by (simp add: plot_folium_map_with_geojson_def setitem_def getitem_def to_numeric_def
      dropna_def select_rows_def cell_at_def isna_def empty_def)

section \<open>Uploads that are too large\<close>

text \<open>
  C9. The limit is the constant \<open>300 * 1024 * 1024\<close> bytes, that is 300 MiB. An upload
  whose size is above it ends in the oversize error, whatever the file reader, the
  parsers and the selections are or would return: the reader is not reached, and the
  page holds the error and no table. The oversize error is shown in no other case.
\<close>

theorem oversize_rejected_before_parsing:
  "(300 * 1024 * 1024 < file_size u
      \<longrightarrow> (\<forall>read_csv parse coerce sel.
            historical_data read_csv parse coerce (Some (u :: 'f uploaded_file)) sel
              = ErrorShown OversizeInputError))
   \<and> (historical_data read_csv parse coerce (Some u) sel = ErrorShown OversizeInputError
        \<longleftrightarrow> 314572800 < file_size u)"
proof -
  have 1: "historical_data r p c (Some u) s = ErrorShown OversizeInputError"
    if "300 * 1024 * 1024 < file_size u"
    for r :: "'f uploaded_file \<Rightarrow> dataframe option" and p c s
    using that by (simp add: historical_data_def)
  have 2: "historical_data read_csv parse coerce (Some u) sel \<noteq> ErrorShown OversizeInputError"
    if le: "\<not> 314572800 < file_size u"
  proof (cases "preprocess_data read_csv parse u")
    case (Inl e)
    from preprocess_data_Inl [OF Inl] have "e \<noteq> OversizeInputError" by auto
    with le Inl show ?thesis by (simp add: historical_data_def)
  next
    case (Inr processed)
    show ?thesis
    proof (cases "build_window sel")
      case (Inl e)
      from build_window_Inl [OF Inl] have "e \<noteq> OversizeInputError" by simp
      with le Inr Inl show ?thesis
        by (simp add: historical_data_def split: option.splits)
    next
      case w: (Inr se)
      with le Inr show ?thesis
        by (cases se) (simp add: historical_data_def Let_def split: option.splits prod.splits)
    qed
  qed
  from 1 2 show ?thesis by auto
qed

theorem oversize_rejected_before_parsing_witness:
  "(300 * 1024 * 1024 :: nat) < file_size \<lparr>file_size = 314572801, file_body = ''a,b''\<rparr>
   \<and> historical_data (\<lambda>u. None) timestamps_only numbers_only
       (Some \<lparr>file_size = 314572801, file_body = ''a,b''\<rparr>)
       \<lparr>start_year = 2024, start_month = 1, start_day = 1, start_time = ''00:00:00'',
        end_year = 2024, end_month = 12, end_day = 31, end_time = ''23:55:00''\<rparr>
     = ErrorShown OversizeInputError
   \<and> historical_data (\<lambda>u. None) timestamps_only numbers_only
       (Some \<lparr>file_size = 314572800, file_body = ''a,b''\<rparr>)
       \<lparr>start_year = 2024, start_month = 1, start_day = 1, start_time = ''00:00:00'',
        end_year = 2024, end_month = 12, end_day = 31, end_time = ''23:55:00''\<rparr>
     = ErrorShown ParseError"
proof -
  let ?u = "\<lparr>file_size = 314572801, file_body = ''a,b''\<rparr>"
  let ?sel = "\<lparr>start_year = 2024, start_month = 1, start_day = 1, start_time = ''00:00:00'',
        end_year = 2024, end_month = 12, end_day = 31, end_time = ''23:55:00''\<rparr>"
  have a: "(300 * 1024 * 1024 :: nat) < file_size ?u" by simp
  with oversize_rejected_before_parsing [of ?u]
  have 1: "historical_data (\<lambda>u. None) timestamps_only numbers_only (Some ?u) ?sel
             = ErrorShown OversizeInputError" by blast
  have 2: "historical_data (\<lambda>u. None) timestamps_only numbers_only
       (Some \<lparr>file_size = 314572800, file_body = ''a,b''\<rparr>) ?sel = ErrorShown ParseError"
    by (simp add: historical_data_def preprocess_data_def)
  from a 1 2 show ?thesis by blast
qed

section \<open>The datetime keywords that matter\<close>

text \<open>
  C10. Detection with the four datetime keywords gives, on every header, the result
  of detection with the two keywords \<^verbatim>\<open>timestamp\<close> and \<^verbatim>\<open>date\<close>, since \<^verbatim>\<open>date\<close> occurs in
  \<^verbatim>\<open>datetime\<close> and in \<^verbatim>\<open>date_time\<close>. A header that merely contains \<^verbatim>\<open>date\<close>, in any case of
  the letters, is therefore taken as the datetime column as soon as no header before
  it matches: \<^verbatim>\<open>validated\<close> and \<^verbatim>\<open>update_count\<close> are.
\<close>

theorem datetime_keywords_reduce:
  "detect_datetime_column data = detect_datetime_with [''timestamp'', ''date''] (columns data)
   \<and> (\<forall>pre h post rs.
         contains_ci ''date'' h \<and> (\<forall>c \<in> set pre. \<not> matches_any [''timestamp'', ''date''] c)
         \<longrightarrow> detect_datetime_column \<lparr>columns = pre @ h # post, rows = rs\<rparr> = Some h)
   \<and> detect_datetime_column \<lparr>columns = [''id'', ''validated'', ''date''], rows = rs\<rparr>
       = Some ''validated''
   \<and> detect_datetime_column \<lparr>columns = [''update_count'', ''timestamp''], rows = rs\<rparr>
       = Some ''update_count''"
proof -
  have r: "any_keyword_in [''timestamp'', ''date''] h = matches_any [''timestamp'', ''date''] h"
    for h
    by (rule any_keyword_in_iff [OF reduced_keywords_lower])
  have eq: "detect_datetime_column d = detect_datetime_with [''timestamp'', ''date''] (columns d)"
    for d
    unfolding detect_datetime_column_def
    by (rule detect_datetime_with_cong) (rule datetime_keywords_reduced)
  have sel: "detect_datetime_column \<lparr>columns = pre @ h # post, rows = rs\<rparr> = Some h"
    if h: "contains_ci ''date'' h"
      and pre: "\<forall>c \<in> set pre. \<not> matches_any [''timestamp'', ''date''] c"
    for pre h post rs
  proof -
    from h have "matches_any [''timestamp'', ''date''] h"
      by (simp add: matches_any_def)
    with pre have "pre @ h # post = pre @ h # post
        \<and> any_keyword_in [''timestamp'', ''date''] h
        \<and> (\<forall>c \<in> set pre. \<not> any_keyword_in [''timestamp'', ''date''] c)"
      by (simp add: r)
    then have "detect_datetime_with [''timestamp'', ''date''] (pre @ h # post) = Some h"
      unfolding detect_datetime_with_Some by blast
    then show ?thesis by (simp add: eq)
  qed
  have e1: "detect_datetime_column \<lparr>columns = [''id'', ''validated'', ''date''], rows = rs\<rparr>
              = Some ''validated''"
    by (simp add: eq any_keyword_in_def lower_def lower_char_def)
  have e2: "detect_datetime_column \<lparr>columns = [''update_count'', ''timestamp''], rows = rs\<rparr>
              = Some ''update_count''"
    by (simp add: eq any_keyword_in_def lower_def lower_char_def)
  from eq sel e1 e2 show ?thesis by blast
qed

theorem datetime_keywords_reduce_witness:
  "contains_ci ''date'' ''Last_Updated''
   \<and> \<not> matches_any [''timestamp'', ''date''] ''id''
   \<and> detect_datetime_column \<lparr>columns = [''id'', ''Last_Updated'', ''timestamp''], rows = []\<rparr>
       = Some ''Last_Updated''"
proof -
  have h: "contains_ci ''date'' ''Last_Updated''"
    by (simp add: str_in_lower_iff [symmetric] lower_def lower_char_def)
  have n: "\<not> matches_any [''timestamp'', ''date''] ''id''"
    by (simp add: any_keyword_in_iff [OF reduced_keywords_lower, symmetric]
        any_keyword_in_def lower_def lower_char_def)
  then have p: "\<forall>c \<in> set [''id'']. \<not> matches_any [''timestamp'', ''date''] c" by simp
  have "detect_datetime_column \<lparr>columns = [''id''] @ ''Last_Updated'' # [''timestamp''], rows = []\<rparr>
          = Some ''Last_Updated''"
    using datetime_keywords_reduce [of "\<lparr>columns = [], rows = []\<rparr>" "[]"] h p by blast
  with h n show ?thesis by simp
qed

end
